theory Spec2Isabelle
  imports Main
begin

section \<open>The B+ tree of bplustree.go over an explicit store\<close>

text \<open>
  The Go program builds its tree out of heap-allocated nodes that point at each other
  (children, parent, next, prev). Several operations depend on that aliasing, so the
  model keeps an explicit store: a list of node records in which a pointer is the index
  of the record (\<open>addr\<close>), a nil pointer is \<open>None\<close>, and an allocation appends a record.
  Every pointer the program stores refers to an allocated node, as Go guarantees.

  A runtime panic (nil dereference, index or slice bound out of range, the explicit
  \<open>panic\<close> of \<open>mayStealFromNeighborLeaf\<close>) is the value \<open>Inl\<close> of the result; the
  recursive methods are partial functions whose value \<open>None\<close> stands for a call that
  never returns.
\<close>

datatype error = NilDeref | IndexOutOfRange | UnexpectedSteal

type_synonym addr = nat

text \<open>The struct \<open>node\<close> (lines 94-106). The fields \<open>next\<close> and \<open>values\<close> carry a
  suffix because the plain words are reserved.\<close>

record ('k, 'v) node =
  keys :: "'k list"
  children :: "addr list"
  parent :: "addr option"
  order :: int
  next_n :: "addr option"
  prev :: "addr option"
  isLeaf :: bool
  values_n :: "'v list"

type_synonym ('k, 'v) heap = "('k, 'v) node list"

definition upd :: "addr \<Rightarrow> (('k, 'v) node \<Rightarrow> ('k, 'v) node) \<Rightarrow> ('k, 'v) heap \<Rightarrow> ('k, 'v) heap" where
  "upd a f h = h[a := f (h ! a)]"

definition bind_err :: "error + 'a \<Rightarrow> ('a \<Rightarrow> error + 'b) \<Rightarrow> error + 'b" where
  "bind_err m f = (case m of Inl e \<Rightarrow> Inl e | Inr x \<Rightarrow> f x)"

subsection \<open>The slice type \<open>items\<close> (lines 11-76)\<close>

text \<open>\<open>insertAt\<close>: the slice grows by one, the tail moves up, \<open>(*s)[index] = item\<close>
  panics unless \<open>0 \<le> index \<le> len\<close> (the old length).\<close>

definition insertAt :: "int \<Rightarrow> 'a \<Rightarrow> 'a list \<Rightarrow> error + 'a list" where
  "insertAt index item s =
     (if 0 \<le> index \<and> index \<le> int (length s)
      then Inr (take (nat index) s @ item # drop (nat index) s)
      else Inl IndexOutOfRange)"

text \<open>\<open>removeAt\<close>: \<open>item := (*s)[index]\<close> panics unless \<open>0 \<le> index < len\<close>.\<close>

definition removeAt :: "int \<Rightarrow> 'a list \<Rightarrow> error + ('a \<times> 'a list)" where
  "removeAt index s =
     (if 0 \<le> index \<and> index < int (length s)
      then Inr (s ! nat index, take (nat index) s @ drop (Suc (nat index)) s)
      else Inl IndexOutOfRange)"

text \<open>\<open>pop\<close>: on an empty slice the index is \<open>-1\<close> and the read panics.\<close>

definition pop :: "'a list \<Rightarrow> error + ('a \<times> 'a list)" where
  "pop s = (if s = [] then Inl IndexOutOfRange else Inr (last s, butlast s))"

text \<open>Go's \<open>sort.Search(n, f)\<close>: the binary search of the standard library, with
  \<open>h = (i + j) / 2\<close>.\<close>

function search_loop :: "(nat \<Rightarrow> bool) \<Rightarrow> nat \<Rightarrow> nat \<Rightarrow> nat" where
  "search_loop f i j =
     (if i < j
      then (let h = (i + j) div 2
            in if \<not> f h then search_loop f (h + 1) j else search_loop f i h)
      else i)"
  by pat_completeness auto
termination
  by (relation "measure (\<lambda>(f, i, j). j - i)") auto

declare search_loop.simps [simp del]

definition Search :: "nat \<Rightarrow> (nat \<Rightarrow> bool) \<Rightarrow> nat" where
  "Search n f = search_loop f 0 n"

text \<open>\<open>items.find\<close> (lines 68-76).\<close>

definition find_items :: "('a \<Rightarrow> 'a \<Rightarrow> bool) \<Rightarrow> 'a \<Rightarrow> 'a list \<Rightarrow> int \<times> bool" where
  "find_items lt item s =
     (let i = Search (length s) (\<lambda>i. lt item (s ! i))
      in if 0 < i \<and> \<not> lt (s ! (i - 1)) item then (int i - 1, True) else (int i, False))"

subsection \<open>Node capacities (lines 108-121)\<close>

text \<open>The order is an unbounded integer here; \<open>order - 1\<close> is the program's value for
  every \<open>int\<close> but the least one, where Go wraps around.\<close>

definition maxKeys :: "('k, 'v) node \<Rightarrow> int" where
  "maxKeys n = (if \<not> isLeaf n then order n - 1 else order n)"

text \<open>\<open>degree\<close> is \<open>ceil(order / 2)\<close>, computed by the program in \<open>float64\<close>: the two
  agree for every order of absolute value up to \<open>2^53\<close>, beyond which the conversion to
  \<open>float64\<close> rounds.\<close>

definition minKeys :: "('k, 'v) node \<Rightarrow> int" where
  "minKeys n = (let degree = (order n + 1) div 2
                in if \<not> isLeaf n then degree - 1 else degree)"

subsection \<open>Insertion (lines 123-201)\<close>

text \<open>\<open>node.split\<close>: the reads \<open>n.keys[i]\<close>, \<open>n.children[i+1:]\<close> and \<open>n.values[i:]\<close>
  panic out of range, in this order; once they have passed, \<open>truncate\<close> (lines 56-63)
  keeps the first \<open>i\<close> keys and values and the first \<open>i+1\<close> children. The new node is
  allocated at the end of the store and linked in behind \<open>n\<close>, whatever the role of
  \<open>n\<close>.\<close>

definition split_node :: "('k, 'v) heap \<Rightarrow> addr \<Rightarrow> int \<Rightarrow> error + ('k \<times> addr \<times> ('k, 'v) heap)" where
  "split_node h n i =
     (let N = h ! n in
      if i < 0 \<or> int (length (keys N)) \<le> i then Inl IndexOutOfRange
      else if children N \<noteq> [] \<and> int (length (children N)) < i + 1 then Inl IndexOutOfRange
      else if values_n N \<noteq> [] \<and> int (length (values_n N)) < i then Inl IndexOutOfRange
      else
        let key = keys N ! nat i;
            newNode = length h;
            ik = (if isLeaf N then i else i + 1);
            NN = \<lparr>keys = drop (nat ik) (keys N),
                  children = (if children N \<noteq> [] then drop (nat (i + 1)) (children N) else []),
                  parent = parent N, order = order N, next_n = None, prev = None,
                  isLeaf = isLeaf N,
                  values_n = (if values_n N \<noteq> [] then drop (nat i) (values_n N) else [])\<rparr>;
            h1 = h[n := N\<lparr>keys := take (nat i) (keys N),
                           children := (if children N \<noteq> [] then take (nat (i + 1)) (children N)
                                        else children N),
                           values_n := (if values_n N \<noteq> [] then take (nat i) (values_n N)
                                        else values_n N)\<rparr>] @ [NN];
            h2 = (case next_n (h1 ! n) of None \<Rightarrow> h1
                  | Some x \<Rightarrow> upd x (\<lambda>X. X\<lparr>prev := Some newNode\<rparr>) h1);
            h3 = upd newNode (\<lambda>X. X\<lparr>prev := Some n, next_n := next_n (h2 ! n)\<rparr>) h2;
            h4 = upd n (\<lambda>X. X\<lparr>next_n := Some newNode\<rparr>) h3
        in Inr (key, newNode, h4))"

text \<open>\<open>node.mayGrowUp\<close>: the result is the new root, if one was created, and the
  boolean the method returns.\<close>

partial_function (option) mayGrowUp ::
  "('k \<Rightarrow> 'k \<Rightarrow> bool) \<Rightarrow> ('k, 'v) heap \<Rightarrow> addr \<Rightarrow> (error + (('k, 'v) heap \<times> addr option \<times> bool)) option" where
  "mayGrowUp lt h n =
     (if int (length (keys (h ! n))) \<le> maxKeys (h ! n) then Some (Inr (h, None, False))
      else case split_node h n (minKeys (h ! n)) of
        Inl e \<Rightarrow> Some (Inl e)
      | Inr (promotedKey, newNode, h1) \<Rightarrow>
          (case parent (h1 ! n) of
             None \<Rightarrow>
               (let root = length h1;
                    h2 = h1 @ [\<lparr>keys = [promotedKey], children = [n, newNode], parent = None,
                                 order = order (h1 ! n), next_n = None, prev = None,
                                 isLeaf = False, values_n = []\<rparr>];
                    h3 = upd n (\<lambda>X. X\<lparr>parent := Some root\<rparr>) h2;
                    h4 = upd newNode (\<lambda>X. X\<lparr>parent := Some root\<rparr>) h3
                in Some (Inr (h4, Some root, True)))
           | Some p \<Rightarrow>
               (let index = fst (find_items lt promotedKey (keys (h1 ! p)))
                in case insertAt index promotedKey (keys (h1 ! p)) of
                     Inl e \<Rightarrow> Some (Inl e)
                   | Inr pks \<Rightarrow>
                       (let h2 = upd p (\<lambda>X. X\<lparr>keys := pks\<rparr>) h1
                        in case insertAt (index + 1) newNode (children (h2 ! p)) of
                             Inl e \<Rightarrow> Some (Inl e)
                           | Inr pcs \<Rightarrow>
                               mayGrowUp lt (upd p (\<lambda>X. X\<lparr>children := pcs\<rparr>) h2) p))))"

text \<open>\<open>node.insertIntoLeaf\<close>: \<open>n.values[index] = value\<close> panics out of range.\<close>

definition insertIntoLeaf ::
  "('k \<Rightarrow> 'k \<Rightarrow> bool) \<Rightarrow> ('k, 'v) heap \<Rightarrow> addr \<Rightarrow> 'k \<Rightarrow> 'v \<Rightarrow> (error + (('k, 'v) heap \<times> addr option \<times> bool)) option" where
  "insertIntoLeaf lt h n key val =
     (let index = fst (find_items lt key (keys (h ! n)));
          found = snd (find_items lt key (keys (h ! n)))
      in if found then
           (if 0 \<le> index \<and> index < int (length (values_n (h ! n)))
            then Some (Inr (upd n (\<lambda>X. X\<lparr>values_n := (values_n X)[nat index := val]\<rparr>) h, None, False))
            else Some (Inl IndexOutOfRange))
         else case insertAt index key (keys (h ! n)) of
           Inl e \<Rightarrow> Some (Inl e)
         | Inr ks \<Rightarrow>
             (let h1 = upd n (\<lambda>X. X\<lparr>keys := ks\<rparr>) h
              in case insertAt index val (values_n (h1 ! n)) of
                   Inl e \<Rightarrow> Some (Inl e)
                 | Inr vs \<Rightarrow> mayGrowUp lt (upd n (\<lambda>X. X\<lparr>values_n := vs\<rparr>) h1) n))"

text \<open>\<open>node.insert\<close>: the descent; \<open>n.children[i]\<close> panics out of range.\<close>

partial_function (option) insert_node ::
  "('k \<Rightarrow> 'k \<Rightarrow> bool) \<Rightarrow> ('k, 'v) heap \<Rightarrow> addr \<Rightarrow> 'k \<Rightarrow> 'v \<Rightarrow> (error + (('k, 'v) heap \<times> addr option \<times> bool)) option" where
  "insert_node lt h n key val =
     (if isLeaf (h ! n) then insertIntoLeaf lt h n key val
      else (let i = fst (find_items lt key (keys (h ! n)))
            in if 0 \<le> i \<and> i < int (length (children (h ! n)))
               then insert_node lt h (children (h ! n) ! nat i) key val
               else Some (Inl IndexOutOfRange)))"

subsection \<open>Removal (lines 203-295)\<close>

text \<open>The first branch of \<open>mayStealFromNeighborLeaf\<close> (lines 238-246), \<open>a\<close> being
  \<open>n.prev\<close>.\<close>

definition stealFromPrev ::
  "('k \<Rightarrow> 'k \<Rightarrow> bool) \<Rightarrow> ('k, 'v) heap \<Rightarrow> addr \<Rightarrow> addr \<Rightarrow> 'k \<Rightarrow> error + (('k, 'v) heap \<times> bool)" where
  "stealFromPrev lt h n a key =
     bind_err (pop (keys (h ! a))) (\<lambda>(stolenKey, ks).
     let h1 = upd a (\<lambda>X. X\<lparr>keys := ks\<rparr>) h in
     bind_err (pop (values_n (h1 ! a))) (\<lambda>(stolenValue, vs).
     let h2 = upd a (\<lambda>X. X\<lparr>values_n := vs\<rparr>) h1;
         h3 = upd n (\<lambda>X. X\<lparr>keys := stolenKey # keys X\<rparr>) h2;
         h4 = upd n (\<lambda>X. X\<lparr>values_n := stolenValue # values_n X\<rparr>) h3
     in case parent (h4 ! n) of
          None \<Rightarrow> Inl NilDeref
        | Some p \<Rightarrow>
            (let index = fst (find_items lt key (keys (h4 ! p)))
             in bind_err (removeAt index (keys (h4 ! p))) (\<lambda>(_, ks1).
                bind_err (insertAt index stolenKey ks1) (\<lambda>ks2.
                Inr (upd p (\<lambda>X. X\<lparr>keys := ks2\<rparr>) h4, True))))))"

text \<open>The second branch (lines 249-259), \<open>b\<close> being \<open>n.next\<close>; \<open>next.keys[0]\<close> panics
  when the next leaf is left empty.\<close>

definition stealFromNext ::
  "('k \<Rightarrow> 'k \<Rightarrow> bool) \<Rightarrow> ('k, 'v) heap \<Rightarrow> addr \<Rightarrow> addr \<Rightarrow> 'k \<Rightarrow> error + (('k, 'v) heap \<times> bool)" where
  "stealFromNext lt h n b key =
     bind_err (removeAt 0 (keys (h ! b))) (\<lambda>(stolenKey, ks).
     let h1 = upd b (\<lambda>X. X\<lparr>keys := ks\<rparr>) h in
     bind_err (removeAt 0 (values_n (h1 ! b))) (\<lambda>(stolenValue, vs).
     let h2 = upd b (\<lambda>X. X\<lparr>values_n := vs\<rparr>) h1;
         h3 = upd n (\<lambda>X. X\<lparr>keys := keys X @ [stolenKey]\<rparr>) h2;
         h4 = upd n (\<lambda>X. X\<lparr>values_n := values_n X @ [stolenValue]\<rparr>) h3
     in case keys (h4 ! b) of
          [] \<Rightarrow> Inl IndexOutOfRange
        | shiftUpKey # _ \<Rightarrow>
            (case parent (h4 ! n) of
               None \<Rightarrow> Inl NilDeref
             | Some p \<Rightarrow>
                 (let index = fst (find_items lt key (keys (h4 ! p)))
                  in bind_err (removeAt index (keys (h4 ! p))) (\<lambda>(_, ks1).
                     bind_err (insertAt index shiftUpKey ks1) (\<lambda>ks2.
                     Inr (upd p (\<lambda>X. X\<lparr>keys := ks2\<rparr>) h4, True)))))))"

text \<open>\<open>node.mayStealFromNeighborLeaf\<close> (lines 232-262).\<close>

definition mayStealFromNeighborLeaf ::
  "('k \<Rightarrow> 'k \<Rightarrow> bool) \<Rightarrow> ('k, 'v) heap \<Rightarrow> addr \<Rightarrow> 'k \<Rightarrow> error + (('k, 'v) heap \<times> bool)" where
  "mayStealFromNeighborLeaf lt h n key =
     (if \<not> isLeaf (h ! n) then Inl UnexpectedSteal
      else case (case prev (h ! n) of
                   None \<Rightarrow> None
                 | Some a \<Rightarrow> if minKeys (h ! a) < int (length (keys (h ! a))) then Some a else None) of
             Some a \<Rightarrow> stealFromPrev lt h n a key
           | None \<Rightarrow>
               (case (case next_n (h ! n) of
                        None \<Rightarrow> None
                      | Some b \<Rightarrow> if minKeys (h ! b) < int (length (keys (h ! b))) then Some b else None) of
                  Some b \<Rightarrow> stealFromNext lt h n b key
                | None \<Rightarrow> Inr (h, False)))"

text \<open>\<open>node.mayMergeWithNeighbor\<close> (lines 264-295). \<open>first\<close> is never nil; \<open>second\<close> is
  nil when \<open>n\<close> has neither link, and \<open>second.keys\<close> then panics. The result is the
  stop node and the boolean.\<close>

partial_function (option) mayMergeWithNeighbor ::
  "('k \<Rightarrow> 'k \<Rightarrow> bool) \<Rightarrow> ('k, 'v) heap \<Rightarrow> addr \<Rightarrow> 'k \<Rightarrow> (error + (('k, 'v) heap \<times> addr option \<times> bool)) option" where
  "mayMergeWithNeighbor lt h n key =
     (let first = (case prev (h ! n) of None \<Rightarrow> n | Some a \<Rightarrow> a);
          second_opt = (case prev (h ! n) of None \<Rightarrow> next_n (h ! n) | Some a \<Rightarrow> Some n)
      in case second_opt of
           None \<Rightarrow> Some (Inl NilDeref)
         | Some second \<Rightarrow>
             if maxKeys (h ! first) < int (length (keys (h ! first))) + int (length (keys (h ! second)))
             then Some (Inr (h, Some n, False))
             else
               (let h1 = upd first (\<lambda>X. X\<lparr>keys := keys X @ keys (h ! second)\<rparr>) h;
                    h2 = upd first (\<lambda>X. X\<lparr>children := children X @ children (h1 ! second)\<rparr>) h1;
                    h3 = upd first (\<lambda>X. X\<lparr>values_n := values_n X @ values_n (h2 ! second)\<rparr>) h2;
                    h4 = upd first (\<lambda>X. X\<lparr>next_n := next_n (h3 ! second)\<rparr>) h3;
                    h5 = (case next_n (h4 ! second) of None \<Rightarrow> h4
                          | Some x \<Rightarrow> upd x (\<lambda>X. X\<lparr>prev := Some first\<rparr>) h4)
                in case parent (h5 ! n) of
                     None \<Rightarrow> Some (Inl NilDeref)
                   | Some p \<Rightarrow>
                       (let i0 = fst (find_items lt key (keys (h5 ! p)));
                            i = (if i0 = int (length (keys (h5 ! p))) then i0 - 1 else i0)
                        in case removeAt i (keys (h5 ! p)) of
                             Inl e \<Rightarrow> Some (Inl e)
                           | Inr (_, pks) \<Rightarrow>
                               (let h6 = upd p (\<lambda>X. X\<lparr>keys := pks\<rparr>) h5
                                in case removeAt (i + 1) (children (h6 ! p)) of
                                     Inl e \<Rightarrow> Some (Inl e)
                                   | Inr (_, pcs) \<Rightarrow>
                                       (let h7 = upd p (\<lambda>X. X\<lparr>children := pcs\<rparr>) h6
                                        in if keys (h7 ! p) = []
                                           then Some (Inr (upd first (\<lambda>X. X\<lparr>parent := None\<rparr>) h7,
                                                           Some first, True))
                                           else Option.bind (mayMergeWithNeighbor lt h7 p key)
                                                  (\<lambda>r. case r of
                                                     Inl e \<Rightarrow> Some (Inl e)
                                                   | Inr (h8, stopAt, _) \<Rightarrow> Some (Inr (h8, stopAt, True))))))))"

text \<open>\<open>node.removeFromLeaf\<close> (lines 214-230). The named result \<open>out\<close> keeps the zero
  value of the value type, here \<open>None\<close>, until the pair is removed.\<close>

definition removeFromLeaf ::
  "('k \<Rightarrow> 'k \<Rightarrow> bool) \<Rightarrow> ('k, 'v) heap \<Rightarrow> addr \<Rightarrow> 'k \<Rightarrow> (error + (('k, 'v) heap \<times> addr option \<times> 'v option \<times> bool)) option" where
  "removeFromLeaf lt h n key =
     (let index = fst (find_items lt key (keys (h ! n)));
          found = snd (find_items lt key (keys (h ! n)))
      in if \<not> found then Some (Inr (h, None, None, False))
         else case removeAt index (keys (h ! n)) of
           Inl e \<Rightarrow> Some (Inl e)
         | Inr (_, ks) \<Rightarrow>
             (let h1 = upd n (\<lambda>X. X\<lparr>keys := ks\<rparr>) h
              in case removeAt index (values_n (h1 ! n)) of
                   Inl e \<Rightarrow> Some (Inl e)
                 | Inr (out, vs) \<Rightarrow>
                     (let h2 = upd n (\<lambda>X. X\<lparr>values_n := vs\<rparr>) h1
                      in if parent (h2 ! n) = None \<or> minKeys (h2 ! n) \<le> int (length (keys (h2 ! n)))
                         then Some (Inr (h2, None, Some out, True))
                         else case mayStealFromNeighborLeaf lt h2 n key of
                                Inl e \<Rightarrow> Some (Inl e)
                              | Inr (h3, stolen) \<Rightarrow>
                                  if stolen then Some (Inr (h3, None, Some out, True))
                                  else Option.bind (mayMergeWithNeighbor lt h3 n key)
                                         (\<lambda>r. case r of
                                            Inl e \<Rightarrow> Some (Inl e)
                                          | Inr (h4, stopAt, _) \<Rightarrow> Some (Inr (h4, stopAt, Some out, True))))))"

text \<open>\<open>node.remove\<close>: the descent.\<close>

partial_function (option) remove_node ::
  "('k \<Rightarrow> 'k \<Rightarrow> bool) \<Rightarrow> ('k, 'v) heap \<Rightarrow> addr \<Rightarrow> 'k \<Rightarrow> (error + (('k, 'v) heap \<times> addr option \<times> 'v option \<times> bool)) option" where
  "remove_node lt h n key =
     (if isLeaf (h ! n) then removeFromLeaf lt h n key
      else (let i = fst (find_items lt key (keys (h ! n)))
            in if 0 \<le> i \<and> i < int (length (children (h ! n)))
               then remove_node lt h (children (h ! n) ! nat i) key
               else Some (Inl IndexOutOfRange)))"

subsection \<open>The tree handle (lines 331-364)\<close>

text \<open>The struct \<open>BPlusTree\<close> (fields \<open>order\<close>, \<open>less\<close> and \<open>root\<close>, with a suffix where
  the name is taken), together with the store its nodes live in.\<close>

record ('k, 'v) BPlusTree =
  order_t :: int
  less_t :: "'k \<Rightarrow> 'k \<Rightarrow> bool"
  root :: "addr option"
  store :: "('k, 'v) heap"

definition New :: "int \<Rightarrow> ('k \<Rightarrow> 'k \<Rightarrow> bool) \<Rightarrow> ('k, 'v) BPlusTree" where
  "New ord lt = \<lparr>order_t = ord, less_t = lt, root = None, store = []\<rparr>"

definition Insert ::
  "('k, 'v) BPlusTree \<Rightarrow> 'k \<Rightarrow> 'v \<Rightarrow> (error + (('k, 'v) BPlusTree \<times> bool)) option" where
  "Insert t key val =
     (case root t of
        None \<Rightarrow>
          Some (Inr (t\<lparr>root := Some (length (store t)),
                       store := store t @ [\<lparr>keys = [key], children = [], parent = None,
                                             order = order_t t, next_n = None, prev = None,
                                             isLeaf = True, values_n = [val]\<rparr>]\<rparr>, False))
      | Some r \<Rightarrow>
          Option.bind (insert_node (less_t t) (store t) r key val)
            (\<lambda>res. case res of
               Inl e \<Rightarrow> Some (Inl e)
             | Inr (h, newRoot, found) \<Rightarrow>
                 Some (Inr (t\<lparr>root := (case newRoot of None \<Rightarrow> root t | Some x \<Rightarrow> Some x),
                              store := h\<rparr>, found))))"

definition Remove ::
  "('k, 'v) BPlusTree \<Rightarrow> 'k \<Rightarrow> (error + (('k, 'v) BPlusTree \<times> 'v option \<times> bool)) option" where
  "Remove t key =
     (case root t of
        None \<Rightarrow> Some (Inr (t, None, False))
      | Some r \<Rightarrow>
          Option.bind (remove_node (less_t t) (store t) r key)
            (\<lambda>res. case res of
               Inl e \<Rightarrow> Some (Inl e)
             | Inr (h, stopNode, out, found) \<Rightarrow>
                 Some (Inr (t\<lparr>root := (case stopNode of
                                         None \<Rightarrow> root t
                                       | Some s \<Rightarrow> if parent (h ! s) = None then Some s else root t),
                              store := h\<rparr>, out, found))))"

subsection \<open>A driver and the scan\<close>

text \<open>The example program of the repository reads commands \<open>i key value\<close> and \<open>d key\<close>
  and applies them to one tree; \<open>apply_ops\<close> is that loop over a list of commands. A
  panic ends the run.\<close>

datatype ('k, 'v) op = Ins 'k 'v | Rem 'k

fun apply_ops :: "('k, 'v) BPlusTree \<Rightarrow> ('k, 'v) op list \<Rightarrow> (error + ('k, 'v) BPlusTree) option" where
  "apply_ops t [] = Some (Inr t)"
| "apply_ops t (Ins k v # ops) =
     (case Insert t k v of
        None \<Rightarrow> None
      | Some (Inl e) \<Rightarrow> Some (Inl e)
      | Some (Inr (t', _)) \<Rightarrow> apply_ops t' ops)"
| "apply_ops t (Rem k # ops) =
     (case Remove t k of
        None \<Rightarrow> None
      | Some (Inl e) \<Rightarrow> Some (Inl e)
      | Some (Inr (t', _)) \<Rightarrow> apply_ops t' ops)"

text \<open>Modelled from the spec: the first step of the ascending scan of section 4.4, which
  the source does not contain: from the root, the leftmost child again and again, down
  to a leaf. The fuel is the number of nodes of the store, which no descent without a
  cycle exceeds.\<close>

fun leftmost :: "nat \<Rightarrow> ('k, 'v) heap \<Rightarrow> addr \<Rightarrow> addr option" where
  "leftmost 0 h n = None"
| "leftmost (Suc fuel) h n =
     (if isLeaf (h ! n) then Some n
      else case children (h ! n) of [] \<Rightarrow> None | c # _ \<Rightarrow> leftmost fuel h c)"

text \<open>Modelled from the spec: the second step of that scan, the walk along the
  next-links until \<open>next == nil\<close>, which yields the leaves in turn; the same fuel.\<close>

fun walk_next :: "nat \<Rightarrow> ('k, 'v) heap \<Rightarrow> addr option \<Rightarrow> addr list" where
  "walk_next 0 h p = []"
| "walk_next (Suc fuel) h None = []"
| "walk_next (Suc fuel) h (Some a) = a # walk_next fuel h (next_n (h ! a))"

text \<open>Modelled from the spec: the keys that scan yields, the key sequences of the visited
  leaves one after the other.\<close>

definition scan_keys :: "('k, 'v) BPlusTree \<Rightarrow> 'k list" where
  "scan_keys t =
     (case root t of
        None \<Rightarrow> []
      | Some r \<Rightarrow>
          concat (map (\<lambda>a. keys (store t ! a))
            (walk_next (length (store t)) (store t)
               (leftmost (length (store t)) (store t) r))))"

subsection \<open>The path of the descent\<close>

text \<open>\<open>routes lt h key n l\<close>: the descent of \<open>node.insert\<close> and \<open>node.remove\<close> (lines
  162-166 and 207-211) for \<open>key\<close>, started at the node \<open>n\<close>, ends at the leaf \<open>l\<close>.\<close>

inductive routes :: "('k \<Rightarrow> 'k \<Rightarrow> bool) \<Rightarrow> ('k, 'v) heap \<Rightarrow> 'k \<Rightarrow> addr \<Rightarrow> addr \<Rightarrow> bool"
  for lt :: "'k \<Rightarrow> 'k \<Rightarrow> bool" and h :: "('k, 'v) heap" and key :: 'k where
  routes_leaf: "isLeaf (h ! n) \<Longrightarrow> routes lt h key n n"
| routes_child:
    "\<not> isLeaf (h ! n) \<Longrightarrow> fst (find_items lt key (keys (h ! n))) = i \<Longrightarrow> 0 \<le> i \<Longrightarrow>
     i < int (length (children (h ! n))) \<Longrightarrow> routes lt h key (children (h ! n) ! nat i) l \<Longrightarrow>
     routes lt h key n l"

subsection \<open>Trees of the examples\<close>

text \<open>Order 4 after the insertion of the keys 1 to 5, each with ten times the key as
  its value: two leaves under a root with the separator 3.\<close>

definition tree_1_to_5 :: "(int, int) BPlusTree" where
  "tree_1_to_5 =
     \<lparr>order_t = 4, less_t = (<), root = Some 2,
      store =
        [\<lparr>keys = [1, 2], children = [], parent = Some 2, order = 4,
            next_n = Some 1, prev = None, isLeaf = True, values_n = [10, 20]\<rparr>,
         \<lparr>keys = [3, 4, 5], children = [], parent = Some 2, order = 4,
            next_n = None, prev = Some 0, isLeaf = True, values_n = [30, 40, 50]\<rparr>,
         \<lparr>keys = [3], children = [0, 1], parent = None, order = 4,
            next_n = None, prev = None, isLeaf = False, values_n = []\<rparr>]\<rparr>"

definition ops_1_to_5 :: "(int, int) op list" where
  "ops_1_to_5 = [Ins 1 10, Ins 2 20, Ins 3 30, Ins 4 40, Ins 5 50]"

text \<open>The same tree after \<open>Insert(3, 99)\<close>.\<close>

definition tree_dup_3 :: "(int, int) BPlusTree" where
  "tree_dup_3 =
     \<lparr>order_t = 4, less_t = (<), root = Some 2,
      store =
        [\<lparr>keys = [1, 2, 3], children = [], parent = Some 2, order = 4,
            next_n = Some 1, prev = None, isLeaf = True, values_n = [10, 20, 99]\<rparr>,
         \<lparr>keys = [3, 4, 5], children = [], parent = Some 2, order = 4,
            next_n = None, prev = Some 0, isLeaf = True, values_n = [30, 40, 50]\<rparr>,
         \<lparr>keys = [3], children = [0, 1], parent = None, order = 4,
            next_n = None, prev = None, isLeaf = False, values_n = []\<rparr>]\<rparr>"

text \<open>Order 3: the keys 1 to 10 inserted in ascending order, then \<open>Remove(4)\<close>.\<close>

definition ops_1_to_10_rem_4 :: "(int, int) op list" where
  "ops_1_to_10_rem_4 =
     [Ins 1 10, Ins 2 20, Ins 3 30, Ins 4 40, Ins 5 50, Ins 6 60, Ins 7 70, Ins 8 80,
      Ins 9 90, Ins 10 100, Rem 4]"

text \<open>The tree these operations end in: the root is node 2, and node 1 is one of its children.\<close>

definition tree_1_to_10_rem_4 :: "(int, int) BPlusTree" where
  "tree_1_to_10_rem_4 =
     \<lparr>order_t = 3, less_t = (<), root = Some 2,
      store =
        [\<lparr>keys = [1, 2, 3], children = [], parent = Some 2, order = 3,
            next_n = Some 3, prev = None, isLeaf = True, values_n = [10, 20, 30]\<rparr>,
         \<lparr>keys = [3], children = [], parent = Some 2, order = 3,
            next_n = Some 3, prev = Some 0, isLeaf = True, values_n = [30]\<rparr>,
         \<lparr>keys = [3, 7], children = [0, 1, 3, 4], parent = None, order = 3,
            next_n = None, prev = None, isLeaf = False, values_n = []\<rparr>,
         \<lparr>keys = [5, 6], children = [], parent = Some 2, order = 3,
            next_n = Some 4, prev = Some 0, isLeaf = True, values_n = [50, 60]\<rparr>,
         \<lparr>keys = [7, 8], children = [], parent = Some 2, order = 3,
            next_n = Some 7, prev = Some 3, isLeaf = True, values_n = [70, 80]\<rparr>,
         \<lparr>keys = [7], children = [3, 4], parent = Some 6, order = 3,
            next_n = None, prev = Some 2, isLeaf = False, values_n = []\<rparr>,
         \<lparr>keys = [], children = [2], parent = None, order = 3,
            next_n = None, prev = None, isLeaf = False, values_n = []\<rparr>,
         \<lparr>keys = [9, 10], children = [], parent = Some 2, order = 3,
            next_n = None, prev = Some 4, isLeaf = True, values_n = [90, 100]\<rparr>]\<rparr>"

text \<open>Order 4: the keys 1 to 7 and then 0, three leaves under one root.\<close>

definition ops_1_to_7_and_0 :: "(int, int) op list" where
  "ops_1_to_7_and_0 =
     [Ins 1 10, Ins 2 20, Ins 3 30, Ins 4 40, Ins 5 50, Ins 6 60, Ins 7 70, Ins 0 0]"

text \<open>The tree after these insertions.\<close>

definition tree_1_to_7_and_0 :: "(int, int) BPlusTree" where
  "tree_1_to_7_and_0 =
     \<lparr>order_t = 4, less_t = (<), root = Some 2,
      store =
        [\<lparr>keys = [0, 1, 2], children = [], parent = Some 2, order = 4,
            next_n = Some 1, prev = None, isLeaf = True, values_n = [0, 10, 20]\<rparr>,
         \<lparr>keys = [3, 4], children = [], parent = Some 2, order = 4,
            next_n = Some 3, prev = Some 0, isLeaf = True, values_n = [30, 40]\<rparr>,
         \<lparr>keys = [3, 5], children = [0, 1, 3], parent = None, order = 4,
            next_n = None, prev = None, isLeaf = False, values_n = []\<rparr>,
         \<lparr>keys = [5, 6, 7], children = [], parent = Some 2, order = 4,
            next_n = None, prev = Some 1, isLeaf = True, values_n = [50, 60, 70]\<rparr>]\<rparr>"

text \<open>The tree after \<open>Remove(4)\<close> on it.\<close>

definition tree_stolen_from_prev :: "(int, int) BPlusTree" where
  "tree_stolen_from_prev =
     \<lparr>order_t = 4, less_t = (<), root = Some 2,
      store =
        [\<lparr>keys = [0, 1], children = [], parent = Some 2, order = 4,
            next_n = Some 1, prev = None, isLeaf = True, values_n = [0, 10]\<rparr>,
         \<lparr>keys = [2, 3], children = [], parent = Some 2, order = 4,
            next_n = Some 3, prev = Some 0, isLeaf = True, values_n = [20, 30]\<rparr>,
         \<lparr>keys = [3, 2], children = [0, 1, 3], parent = None, order = 4,
            next_n = None, prev = None, isLeaf = False, values_n = []\<rparr>,
         \<lparr>keys = [5, 6, 7], children = [], parent = Some 2, order = 4,
            next_n = None, prev = Some 1, isLeaf = True, values_n = [50, 60, 70]\<rparr>]\<rparr>"

text \<open>Order 3: the keys 1 to 8, a tree of three levels whose root is node 6.\<close>

definition ops_1_to_8 :: "(int, int) op list" where
  "ops_1_to_8 = [Ins 1 10, Ins 2 20, Ins 3 30, Ins 4 40, Ins 5 50, Ins 6 60, Ins 7 70, Ins 8 80]"

text \<open>The tree after these insertions.\<close>

definition tree_1_to_8 :: "(int, int) BPlusTree" where
  "tree_1_to_8 =
     \<lparr>order_t = 3, less_t = (<), root = Some 6,
      store =
        [\<lparr>keys = [1, 2], children = [], parent = Some 2, order = 3,
            next_n = Some 1, prev = None, isLeaf = True, values_n = [10, 20]\<rparr>,
         \<lparr>keys = [3, 4], children = [], parent = Some 2, order = 3,
            next_n = Some 3, prev = Some 0, isLeaf = True, values_n = [30, 40]\<rparr>,
         \<lparr>keys = [3], children = [0, 1], parent = Some 6, order = 3,
            next_n = Some 5, prev = None, isLeaf = False, values_n = []\<rparr>,
         \<lparr>keys = [5, 6], children = [], parent = Some 2, order = 3,
            next_n = Some 4, prev = Some 1, isLeaf = True, values_n = [50, 60]\<rparr>,
         \<lparr>keys = [7, 8], children = [], parent = Some 2, order = 3,
            next_n = None, prev = Some 3, isLeaf = True, values_n = [70, 80]\<rparr>,
         \<lparr>keys = [7], children = [3, 4], parent = Some 6, order = 3,
            next_n = None, prev = Some 2, isLeaf = False, values_n = []\<rparr>,
         \<lparr>keys = [5], children = [2, 5], parent = None, order = 3,
            next_n = None, prev = None, isLeaf = False, values_n = []\<rparr>]\<rparr>"

text \<open>The tree after \<open>Remove(2)\<close> on it.\<close>

definition tree_1_to_8_rem_2 :: "(int, int) BPlusTree" where
  "tree_1_to_8_rem_2 =
     \<lparr>order_t = 3, less_t = (<), root = Some 0,
      store =
        [\<lparr>keys = [1, 3, 4], children = [], parent = None, order = 3,
            next_n = Some 3, prev = None, isLeaf = True, values_n = [10, 30, 40]\<rparr>,
         \<lparr>keys = [3, 4], children = [], parent = Some 2, order = 3,
            next_n = Some 3, prev = Some 0, isLeaf = True, values_n = [30, 40]\<rparr>,
         \<lparr>keys = [], children = [0], parent = Some 6, order = 3,
            next_n = Some 5, prev = None, isLeaf = False, values_n = []\<rparr>,
         \<lparr>keys = [5, 6], children = [], parent = Some 2, order = 3,
            next_n = Some 4, prev = Some 0, isLeaf = True, values_n = [50, 60]\<rparr>,
         \<lparr>keys = [7, 8], children = [], parent = Some 2, order = 3,
            next_n = None, prev = Some 3, isLeaf = True, values_n = [70, 80]\<rparr>,
         \<lparr>keys = [7], children = [3, 4], parent = Some 6, order = 3,
            next_n = None, prev = Some 2, isLeaf = False, values_n = []\<rparr>,
         \<lparr>keys = [5], children = [2, 5], parent = None, order = 3,
            next_n = None, prev = None, isLeaf = False, values_n = []\<rparr>]\<rparr>"

text \<open>Order 4: the keys 1 to 7, three leaves under the root, which is node 2.\<close>

definition ops_1_to_7 :: "(int, int) op list" where
  "ops_1_to_7 = [Ins 1 10, Ins 2 20, Ins 3 30, Ins 4 40, Ins 5 50, Ins 6 60, Ins 7 70]"

text \<open>The tree after these insertions.\<close>

definition tree_1_to_7 :: "(int, int) BPlusTree" where
  "tree_1_to_7 =
     \<lparr>order_t = 4, less_t = (<), root = Some 2,
      store =
        [\<lparr>keys = [1, 2], children = [], parent = Some 2, order = 4,
            next_n = Some 1, prev = None, isLeaf = True, values_n = [10, 20]\<rparr>,
         \<lparr>keys = [3, 4], children = [], parent = Some 2, order = 4,
            next_n = Some 3, prev = Some 0, isLeaf = True, values_n = [30, 40]\<rparr>,
         \<lparr>keys = [3, 5], children = [0, 1, 3], parent = None, order = 4,
            next_n = None, prev = None, isLeaf = False, values_n = []\<rparr>,
         \<lparr>keys = [5, 6, 7], children = [], parent = Some 2, order = 4,
            next_n = None, prev = Some 1, isLeaf = True, values_n = [50, 60, 70]\<rparr>]\<rparr>"

text \<open>Order 3: the keys 1 to 9. The leaves 5 6 (node 3) and 7 8 9 (node 4) are the
  children of node 5, and both still name node 2 as their parent.\<close>

definition tree_1_to_9 :: "(int, int) BPlusTree" where
  "tree_1_to_9 =
     \<lparr>order_t = 3, less_t = (<), root = Some 6,
      store =
        [\<lparr>keys = [1, 2], children = [], parent = Some 2, order = 3,
            next_n = Some 1, prev = None, isLeaf = True, values_n = [10, 20]\<rparr>,
         \<lparr>keys = [3, 4], children = [], parent = Some 2, order = 3,
            next_n = Some 3, prev = Some 0, isLeaf = True, values_n = [30, 40]\<rparr>,
         \<lparr>keys = [3], children = [0, 1], parent = Some 6, order = 3,
            next_n = Some 5, prev = None, isLeaf = False, values_n = []\<rparr>,
         \<lparr>keys = [5, 6], children = [], parent = Some 2, order = 3,
            next_n = Some 4, prev = Some 1, isLeaf = True, values_n = [50, 60]\<rparr>,
         \<lparr>keys = [7, 8, 9], children = [], parent = Some 2, order = 3,
            next_n = None, prev = Some 3, isLeaf = True, values_n = [70, 80, 90]\<rparr>,
         \<lparr>keys = [7], children = [3, 4], parent = Some 6, order = 3,
            next_n = None, prev = Some 2, isLeaf = False, values_n = []\<rparr>,
         \<lparr>keys = [5], children = [2, 5], parent = None, order = 3,
            next_n = None, prev = None, isLeaf = False, values_n = []\<rparr>]\<rparr>"

text \<open>Order 3: the keys 10, 20, ..., 80 and then 55. The leaf 30 40 (node 1) is the last
  child of node 2, its parent, and the next leaf 50 55 60 (node 3) hangs under node 5.\<close>

definition ops_tens_and_55 :: "(int, int) op list" where
  "ops_tens_and_55 =
     [Ins 10 1, Ins 20 2, Ins 30 3, Ins 40 4, Ins 50 5, Ins 60 6, Ins 70 7, Ins 80 8, Ins 55 9]"

definition tree_tens_and_55 :: "(int, int) BPlusTree" where
  "tree_tens_and_55 =
     \<lparr>order_t = 3, less_t = (<), root = Some 6,
      store =
        [\<lparr>keys = [10, 20], children = [], parent = Some 2, order = 3,
            next_n = Some 1, prev = None, isLeaf = True, values_n = [1, 2]\<rparr>,
         \<lparr>keys = [30, 40], children = [], parent = Some 2, order = 3,
            next_n = Some 3, prev = Some 0, isLeaf = True, values_n = [3, 4]\<rparr>,
         \<lparr>keys = [30], children = [0, 1], parent = Some 6, order = 3,
            next_n = Some 5, prev = None, isLeaf = False, values_n = []\<rparr>,
         \<lparr>keys = [50, 55, 60], children = [], parent = Some 2, order = 3,
            next_n = Some 4, prev = Some 1, isLeaf = True, values_n = [5, 9, 6]\<rparr>,
         \<lparr>keys = [70, 80], children = [], parent = Some 2, order = 3,
            next_n = None, prev = Some 3, isLeaf = True, values_n = [7, 8]\<rparr>,
         \<lparr>keys = [70], children = [3, 4], parent = Some 6, order = 3,
            next_n = None, prev = Some 2, isLeaf = False, values_n = []\<rparr>,
         \<lparr>keys = [50], children = [2, 5], parent = None, order = 3,
            next_n = None, prev = None, isLeaf = False, values_n = []\<rparr>]\<rparr>"

section \<open>Evaluation of the examples\<close>

lemmas bpt_eval = Insert_def Remove_def New_def insert_node.simps insertIntoLeaf_def mayGrowUp.simps
  split_node_def remove_node.simps removeFromLeaf_def mayStealFromNeighborLeaf_def stealFromPrev_def
  stealFromNext_def mayMergeWithNeighbor.simps find_items_def Search_def search_loop.simps insertAt_def
  removeAt_def pop_def maxKeys_def minKeys_def upd_def bind_err_def Let_def

lemma tree_1_to_5_reached: "apply_ops (New 4 (<)) ops_1_to_5 = Some (Inr tree_1_to_5)"
  by (simp add: ops_1_to_5_def tree_1_to_5_def bpt_eval)

lemma tree_1_to_10_rem_4_reached:
  "apply_ops (New 3 (<)) ops_1_to_10_rem_4 = Some (Inr tree_1_to_10_rem_4)"
  by (simp add: ops_1_to_10_rem_4_def tree_1_to_10_rem_4_def bpt_eval)

lemma tree_1_to_7_and_0_reached:
  "apply_ops (New 4 (<)) ops_1_to_7_and_0 = Some (Inr tree_1_to_7_and_0)"
  by (simp add: ops_1_to_7_and_0_def tree_1_to_7_and_0_def bpt_eval)

lemma tree_1_to_8_reached: "apply_ops (New 3 (<)) ops_1_to_8 = Some (Inr tree_1_to_8)"
  by (simp add: ops_1_to_8_def tree_1_to_8_def bpt_eval)

lemma tree_1_to_7_reached: "apply_ops (New 4 (<)) ops_1_to_7 = Some (Inr tree_1_to_7)"
  by (simp add: ops_1_to_7_def tree_1_to_7_def bpt_eval)

lemma tree_1_to_9_reached:
  "apply_ops (New 3 (<)) (ops_1_to_8 @ [Ins 9 90]) = Some (Inr tree_1_to_9)"
  by (simp add: ops_1_to_8_def tree_1_to_9_def bpt_eval)

lemma tree_tens_and_55_reached:
  "apply_ops (New 3 (<)) ops_tens_and_55 = Some (Inr tree_tens_and_55)"
  by (simp add: ops_tens_and_55_def tree_tens_and_55_def bpt_eval)

section \<open>Facts about the slice operations and the descent\<close>


lemma find_items_Nil: "find_items lt k [] = (0, False)"
  by (simp add: find_items_def Search_def search_loop.simps)

lemma find_items_single_eq: "\<not> lt k k \<Longrightarrow> find_items lt k [k] = (0, True)"
  by (simp add: find_items_def Search_def search_loop.simps Let_def)




lemma remove_node_routes:
  "routes lt h key n l \<Longrightarrow> remove_node lt h n key = removeFromLeaf lt h l key"
proof (induction rule: routes.induct)
  case (routes_leaf n)
  then show ?case by (subst remove_node.simps) simp
next
  case (routes_child n i l)
  then show ?case by (subst remove_node.simps) (simp add: Let_def)
qed

text \<open>On keys in strictly increasing order the binary search of \<open>find\<close> answers the
  index of a key that is there, with \<open>found = true\<close>.\<close>

lemma search_loop_threshold:
  "i \<le> m \<Longrightarrow> m \<le> j \<Longrightarrow> (\<And>k. i \<le> k \<Longrightarrow> k < j \<Longrightarrow> f k = (m \<le> k)) \<Longrightarrow>
   search_loop f i j = m"
proof (induction f i j rule: search_loop.induct)
  case (1 f i j)
  show ?case
  proof (cases "i < j")
    case False
    with "1.prems" show ?thesis by (simp add: search_loop.simps)
  next
    case True
    let ?h = "(i + j) div 2"
    have hb: "i \<le> ?h" "?h < j" using True by auto
    show ?thesis
    proof (cases "f ?h")
      case True
      then have mh: "m \<le> ?h" using "1.prems"(3) [of ?h] hb by simp
      have "search_loop f i ?h = m"
        using "1.IH"(2) [of ?h] \<open>i < j\<close> True "1.prems" mh hb by simp
      then show ?thesis
        using \<open>i < j\<close> True by (subst search_loop.simps) (simp add: Let_def)
    next
      case False
      then have mh: "?h + 1 \<le> m" using "1.prems"(3) [of ?h] hb by simp
      have "search_loop f (?h + 1) j = m"
        using "1.IH"(1) [of ?h] \<open>i < j\<close> False "1.prems" mh hb by simp
      then show ?thesis
        using \<open>i < j\<close> False by (subst search_loop.simps) (simp add: Let_def)
    qed
  qed
qed

lemma find_items_tie:
  fixes ks :: "'a::linorder list"
  assumes "sorted_wrt (<) ks" and "j < length ks"
  shows "find_items (<) (ks ! j) ks = (int j, True)"
proof -
  have "\<And>k. k < length ks \<Longrightarrow> (ks ! j < ks ! k) = (Suc j \<le> k)"
  proof -
    fix k assume k: "k < length ks"
    show "(ks ! j < ks ! k) = (Suc j \<le> k)"
    proof (cases "j < k")
      case True
      then show ?thesis using assms k by (simp add: sorted_wrt_nth_less)
    next
      case False
      then have "k \<le> j" by simp
      then have "ks ! k \<le> ks ! j"
        using assms k sorted_wrt_nth_less [of "(<)" ks k j] by (cases "k = j") auto
      then show ?thesis using False by auto
    qed
  qed
  then have "Search (length ks) (\<lambda>i. ks ! j < ks ! i) = Suc j"
    unfolding Search_def using assms(2) by (intro search_loop_threshold) auto
  then show ?thesis
    by (simp add: find_items_def Let_def)
qed

text \<open>Hence, at every internal node whose keys increase strictly, the descent of a key
  equal to \<open>keys[j]\<close> continues in \<open>children[j]\<close>.\<close>

lemma insert_node_tie:
  fixes h :: "('a::linorder, 'v) heap"
  assumes "\<not> isLeaf (h ! n)" and "sorted_wrt (<) (keys (h ! n))"
    and "j < length (keys (h ! n))" and "j < length (children (h ! n))"
  shows "insert_node (<) h n (keys (h ! n) ! j) val
         = insert_node (<) h (children (h ! n) ! j) (keys (h ! n) ! j) val"
    and "remove_node (<) h n (keys (h ! n) ! j)
         = remove_node (<) h (children (h ! n) ! j) (keys (h ! n) ! j)"
  using assms
  by (subst insert_node.simps remove_node.simps, simp add: find_items_tie Let_def)+

text \<open>The boolean of \<open>mayGrowUp\<close>, of \<open>node.insert\<close> and of \<open>Insert\<close> is \<open>true\<close> exactly
  when the call hands back a new root, a node allocated during the call.\<close>

lemma split_node_length:
  "split_node h n i = Inr (k, new, h') \<Longrightarrow> length h' = Suc (length h)"
  by (auto simp add: split_node_def upd_def Let_def split: if_splits option.splits)

lemma mayGrowUp_flag_aux:
  assumes "mayGrowUp lt h n = Some y"
  shows "case y of Inl e \<Rightarrow> True
         | Inr (h', r, b) \<Rightarrow> b = (r \<noteq> None) \<and> (\<forall>x. r = Some x \<longrightarrow> length h \<le> x)"
proof (rule mayGrowUp.raw_induct
    [where P = "\<lambda>lt h n y. case y of Inl e \<Rightarrow> True
                  | Inr (h', r, b) \<Rightarrow> b = (r \<noteq> None) \<and> (\<forall>x. r = Some x \<longrightarrow> length h \<le> x)",
     OF _ assms])
  fix mg :: "('a \<Rightarrow> 'a \<Rightarrow> bool) \<Rightarrow> ('a, 'b) heap \<Rightarrow> addr
             \<Rightarrow> (error + (('a, 'b) heap \<times> addr option \<times> bool)) option"
    and lt h n y
  assume hyps: "\<And>lt h n y. mg lt h n = Some y \<Longrightarrow>
      (case y of Inl e \<Rightarrow> True
       | Inr (h', r, b) \<Rightarrow> b = (r \<noteq> None) \<and> (\<forall>x. r = Some x \<longrightarrow> length h \<le> x))"
    "(if int (length (keys (h ! n))) \<le> maxKeys (h ! n) then Some (Inr (h, None, False))
      else case split_node h n (minKeys (h ! n)) of
        Inl e \<Rightarrow> Some (Inl e)
      | Inr (promotedKey, newNode, h1) \<Rightarrow>
          (case parent (h1 ! n) of
             None \<Rightarrow>
               (let root = length h1;
                    h2 = h1 @ [\<lparr>keys = [promotedKey], children = [n, newNode], parent = None,
                                 order = order (h1 ! n), next_n = None, prev = None,
                                 isLeaf = False, values_n = []\<rparr>];
                    h3 = upd n (\<lambda>X. X\<lparr>parent := Some root\<rparr>) h2;
                    h4 = upd newNode (\<lambda>X. X\<lparr>parent := Some root\<rparr>) h3
                in Some (Inr (h4, Some root, True)))
           | Some p \<Rightarrow>
               (let index = fst (find_items lt promotedKey (keys (h1 ! p)))
                in case insertAt index promotedKey (keys (h1 ! p)) of
                     Inl e \<Rightarrow> Some (Inl e)
                   | Inr pks \<Rightarrow>
                       (let h2 = upd p (\<lambda>X. X\<lparr>keys := pks\<rparr>) h1
                        in case insertAt (index + 1) newNode (children (h2 ! p)) of
                             Inl e \<Rightarrow> Some (Inl e)
                           | Inr pcs \<Rightarrow>
                               mg lt (upd p (\<lambda>X. X\<lparr>children := pcs\<rparr>) h2) p)))) = Some y"
  show "case y of Inl e \<Rightarrow> True
        | Inr (h', r, b) \<Rightarrow> b = (r \<noteq> None) \<and> (\<forall>x. r = Some x \<longrightarrow> length h \<le> x)"
  proof (cases "int (length (keys (h ! n))) \<le> maxKeys (h ! n)")
    case True
    with hyps(2) show ?thesis by auto
  next
    case False
    show ?thesis
    proof (cases "split_node h n (minKeys (h ! n))")
      case (Inl e)
      with hyps(2) False show ?thesis by auto
    next
      case (Inr res)
      then obtain k new h1 where sp: "split_node h n (minKeys (h ! n)) = Inr (k, new, h1)"
        by (cases res) auto
      have len: "length h1 = Suc (length h)" using sp by (rule split_node_length)
      show ?thesis
      proof (cases "parent (h1 ! n)")
        case None
        with hyps(2) False sp len show ?thesis
          by (auto simp add: Let_def upd_def)
      next
        case (Some p)
        show ?thesis
        proof (cases y)
          case (Inl e)
          then show ?thesis by simp
        next
          case yr: (Inr res')
          from hyps(2) False sp Some obtain pks pcs where
            rec: "mg lt (upd p (\<lambda>X. X\<lparr>children := pcs\<rparr>) (upd p (\<lambda>X. X\<lparr>keys := pks\<rparr>) h1)) p = Some y"
            unfolding yr by (auto simp add: Let_def split: sum.splits)
          from hyps(1) [OF rec] len show ?thesis
            unfolding yr by (auto simp add: upd_def split: prod.splits)
        qed
      qed
    qed
  qed
qed

lemma insert_node_flag_aux:
  assumes "insert_node lt h n key val = Some y"
  shows "case y of Inl e \<Rightarrow> True
         | Inr (h', r, b) \<Rightarrow> b = (r \<noteq> None) \<and> (\<forall>x. r = Some x \<longrightarrow> length h \<le> x)"
proof (rule insert_node.raw_induct
    [where P = "\<lambda>lt h n key val y. case y of Inl e \<Rightarrow> True
                  | Inr (h', r, b) \<Rightarrow> b = (r \<noteq> None) \<and> (\<forall>x. r = Some x \<longrightarrow> length h \<le> x)",
     OF _ assms])
  fix ins :: "('a \<Rightarrow> 'a \<Rightarrow> bool) \<Rightarrow> ('a, 'b) heap \<Rightarrow> addr \<Rightarrow> 'a \<Rightarrow> 'b
              \<Rightarrow> (error + (('a, 'b) heap \<times> addr option \<times> bool)) option"
    and lt h n key val y
  assume hyps: "\<And>lt h n key val y. ins lt h n key val = Some y \<Longrightarrow>
      (case y of Inl e \<Rightarrow> True
       | Inr (h', r, b) \<Rightarrow> b = (r \<noteq> None) \<and> (\<forall>x. r = Some x \<longrightarrow> length h \<le> x))"
    "(if isLeaf (h ! n) then insertIntoLeaf lt h n key val
      else (let i = fst (find_items lt key (keys (h ! n)))
            in if 0 \<le> i \<and> i < int (length (children (h ! n)))
               then ins lt h (children (h ! n) ! nat i) key val
               else Some (Inl IndexOutOfRange))) = Some y"
  show "case y of Inl e \<Rightarrow> True
        | Inr (h', r, b) \<Rightarrow> b = (r \<noteq> None) \<and> (\<forall>x. r = Some x \<longrightarrow> length h \<le> x)"
  proof (cases "isLeaf (h ! n)")
    case True
    with hyps(2) have leaf: "insertIntoLeaf lt h n key val = Some y" by simp
    show ?thesis
    proof (cases "snd (find_items lt key (keys (h ! n)))")
      case True
      with leaf show ?thesis
        by (auto simp add: insertIntoLeaf_def Let_def split: if_splits)
    next
      case False
      show ?thesis
      proof (cases y)
        case (Inl e)
        then show ?thesis by simp
      next
        case yr: (Inr res)
        from leaf False obtain ks vs where
          "mayGrowUp lt (upd n (\<lambda>X. X\<lparr>values_n := vs\<rparr>) (upd n (\<lambda>X. X\<lparr>keys := ks\<rparr>) h)) n = Some y"
          unfolding yr by (auto simp add: insertIntoLeaf_def Let_def split: sum.splits)
        from mayGrowUp_flag_aux [OF this] show ?thesis
          unfolding yr by (auto simp add: upd_def split: prod.splits)
      qed
    qed
  next
    case False
    with hyps show ?thesis
      by (auto simp add: Let_def split: if_splits)
  qed
qed

lemma Insert_true_new_root:
  assumes "Insert t key val = Some (Inr (t', True))"
  shows "\<exists>x. root t' = Some x \<and> length (store t) \<le> x"
proof (cases "root t")
  case None
  with assms show ?thesis by (simp add: Insert_def)
next
  case (Some r)
  with assms obtain res where
    ins: "insert_node (less_t t) (store t) r key val = Some res"
    and out: "(case res of
                 Inl e \<Rightarrow> Some (Inl e)
               | Inr (h, newRoot, found) \<Rightarrow>
                   Some (Inr (t\<lparr>root := (case newRoot of None \<Rightarrow> root t | Some x \<Rightarrow> Some x),
                                store := h\<rparr>, found))) = Some (Inr (t', True))"
    by (auto simp add: Insert_def Option.bind_eq_Some_conv)
  show ?thesis
  proof (cases res)
    case (Inl e)
    with out show ?thesis by simp
  next
    case (Inr tr)
    obtain h' nr b where tr: "tr = (h', nr, b)" by (cases tr)
    from out Inr tr have b: "b" and t': "t' = t\<lparr>root := (case nr of None \<Rightarrow> root t | Some x \<Rightarrow> Some x), store := h'\<rparr>"
      by auto
    from insert_node_flag_aux [OF ins] Inr tr b t' show ?thesis by auto
  qed
qed

section \<open>The claims\<close>

subsection \<open>C1: Insert of a key that is already stored\<close>




subsection \<open>C2: Remove of a stored key\<close>

text \<open>
  C2 says that \<open>Remove(key)\<close> returns the stored value with \<open>found = true\<close> whenever the
  key is present anywhere in the tree. The program does not: in the tree of order 4 that
  holds the keys 1 to 5, the key 3 is stored in the second leaf (node 1, a child of the
  root), yet \<open>Remove(3)\<close> reports not-found and leaves the tree as it was. The descent
  sends a key equal to the separator into the child left of it.
\<close>

theorem Remove_misses_stored_key:
  "apply_ops (New 4 (<)) ops_1_to_5 = Some (Inr tree_1_to_5)
   \<and> root tree_1_to_5 = Some 2
   \<and> children (store tree_1_to_5 ! 2) = [0, 1]
   \<and> keys (store tree_1_to_5 ! 1) = [3, 4, 5]
   \<and> Remove tree_1_to_5 3 = Some (Inr (tree_1_to_5, None, False))"
  using tree_1_to_5_reached by (simp add: tree_1_to_5_def bpt_eval)

text \<open>What does hold of C2: when the descent ends in a leaf that does not hold the key,
  \<open>Remove\<close> reports not-found and returns the tree as it was.\<close>

lemma Remove_not_found_unchanged:
  assumes "root t = Some r" and "routes (less_t t) (store t) key r l"
    and "snd (find_items (less_t t) key (keys (store t ! l))) = False"
  shows "Remove t key = Some (Inr (t, None, False))"
proof -
  have "remove_node (less_t t) (store t) r key = removeFromLeaf (less_t t) (store t) l key"
    using assms(2) by (rule remove_node_routes)
  also have "\<dots> = Some (Inr (store t, None, None, False))"
    using assms(3) by (simp add: removeFromLeaf_def Let_def)
  finally show ?thesis
    using assms(1) by (simp add: Remove_def)
qed

subsection \<open>C3: the child chosen for a key equal to a separator\<close>

text \<open>
  C3 says that a key equal to the separator \<open>keys[j]\<close> descends into \<open>children[j+1]\<close>.
  In the program \<open>find\<close> answers index \<open>j\<close> with \<open>found = true\<close> for such a key, and
  \<open>insert\<close> and \<open>remove\<close> use that index as it is (\<open>insert_node_tie\<close>, for every node
  with strictly increasing keys): at the root of the tree with the keys 1 to 5, whose
  only separator is 3, the key 3 descends into \<open>children[0]\<close>.
\<close>

theorem tie_descends_left:
  "keys (store tree_1_to_5 ! 2) = [3]
   \<and> find_items (<) 3 (keys (store tree_1_to_5 ! 2)) = (0, True)
   \<and> insert_node (<) (store tree_1_to_5) 2 3 v
       = insertIntoLeaf (<) (store tree_1_to_5) (children (store tree_1_to_5 ! 2) ! 0) 3 v
   \<and> remove_node (<) (store tree_1_to_5) 2 3
       = removeFromLeaf (<) (store tree_1_to_5) (children (store tree_1_to_5 ! 2) ! 0) 3"
  by (simp add: tree_1_to_5_def insert_node.simps remove_node.simps find_items_def Search_def
      search_loop.simps Let_def)

subsection \<open>C4: the bounds on the number of keys\<close>

text \<open>
  C4 says that after every sequence of operations from the empty tree every reachable
  leaf other than a solitary root leaf has at least \<open>ceil(order/2)\<close> keys. With order 3,
  after the insertion of 1 to 10 in ascending order and \<open>Remove(4)\<close>, node 1 is a leaf,
  a child of the root (node 2), and holds the single key 3, while its minimum is 2. The
  merge took the wrong child reference out of the parent and left the absorbed leaf in
  place.
\<close>

theorem underfull_leaf_reachable:
  "apply_ops (New 3 (<)) ops_1_to_10_rem_4 = Some (Inr tree_1_to_10_rem_4)
   \<and> root tree_1_to_10_rem_4 = Some 2
   \<and> children (store tree_1_to_10_rem_4 ! 2) = [0, 1, 3, 4]
   \<and> isLeaf (store tree_1_to_10_rem_4 ! 1)
   \<and> keys (store tree_1_to_10_rem_4 ! 1) = [3]
   \<and> minKeys (store tree_1_to_10_rem_4 ! 1) = 2"
  using tree_1_to_10_rem_4_reached by (simp add: tree_1_to_10_rem_4_def minKeys_def)

subsection \<open>C5: the leaf chain is strictly increasing\<close>

text \<open>
  C5 says that after every sequence of operations the keys met along the next-links
  from the leftmost leaf are strictly increasing. With order 4, after the insertion of 1
  to 5, \<open>Insert(3, 99)\<close> descends into the left leaf, does not find the key 3 there and
  inserts it a second time: the scan reads 1, 2, 3, 3, 4, 5.
\<close>

theorem duplicate_key_in_leaf_chain:
  "apply_ops (New 4 (<)) (ops_1_to_5 @ [Ins 3 99]) = Some (Inr tree_dup_3)
   \<and> root tree_dup_3 = Some 2
   \<and> children (store tree_dup_3 ! 2) = [0, 1]
   \<and> keys (store tree_dup_3 ! 0) = [1, 2, 3]
   \<and> next_n (store tree_dup_3 ! 0) = Some 1
   \<and> keys (store tree_dup_3 ! 1) = [3, 4, 5]
   \<and> next_n (store tree_dup_3 ! 1) = None
   \<and> scan_keys tree_dup_3 = [1, 2, 3, 3, 4, 5]
   \<and> \<not> sorted_wrt (<) (scan_keys tree_dup_3)"
proof -
  have "apply_ops (New 4 (<)) (ops_1_to_5 @ [Ins 3 99]) = Some (Inr tree_dup_3)"
    by (simp add: ops_1_to_5_def tree_dup_3_def bpt_eval)
  moreover have "scan_keys tree_dup_3 = [1, 2, 3, 3, 4, 5]"
    by (simp add: scan_keys_def tree_dup_3_def)
  ultimately show ?thesis by (simp add: tree_dup_3_def)
qed

subsection \<open>C6: merging with a neighbor\<close>

text \<open>
  C6 says that the child that survives the collapse of an emptied parent becomes the
  tree's root exactly when that parent was the root, and that otherwise the merge check
  goes on at the parent. The program does neither. With order 3 and the keys 1 to 8
  the root is node 6 and the first leaf hangs under node 2; \<open>Remove(2)\<close> merges the
  first two leaves and empties node 2, which is not the root, and yet the merged leaf
  (node 0) becomes the root of the tree: the key 7, still stored in the leaf node 4, is
  no longer found. With order 4 and the keys 1 to 7, \<open>Remove(1)\<close> merges the first two
  leaves and runs the merge check on the root, which has two keys left; the check reads
  the root's next-link, nil, and panics, where \<open>removeFromLeaf\<close> stops at a node
  without parent.
\<close>

theorem merge_collapse_and_root_check_fail:
  "apply_ops (New 3 (<)) ops_1_to_8 = Some (Inr tree_1_to_8)
   \<and> root tree_1_to_8 = Some 6
   \<and> parent (store tree_1_to_8 ! 0) = Some 2
   \<and> parent (store tree_1_to_8 ! 2) = Some 6
   \<and> Remove tree_1_to_8 2 = Some (Inr (tree_1_to_8_rem_2, Some 20, True))
   \<and> root tree_1_to_8_rem_2 = Some 0
   \<and> keys (store tree_1_to_8_rem_2 ! 4) = [7, 8]
   \<and> Remove tree_1_to_8_rem_2 7 = Some (Inr (tree_1_to_8_rem_2, None, False))
   \<and> apply_ops (New 4 (<)) ops_1_to_7 = Some (Inr tree_1_to_7)
   \<and> root tree_1_to_7 = Some 2
   \<and> keys (store tree_1_to_7 ! 2) = [3, 5]
   \<and> prev (store tree_1_to_7 ! 2) = None \<and> next_n (store tree_1_to_7 ! 2) = None
   \<and> Remove tree_1_to_7 1 = Some (Inl NilDeref)"
  using tree_1_to_8_reached tree_1_to_7_reached
  by (simp add: tree_1_to_8_def tree_1_to_8_rem_2_def tree_1_to_7_def bpt_eval)

subsection \<open>C7: stealing from the previous leaf\<close>

text \<open>
  C7 says that the separator that routes to the current leaf is overwritten with the
  stolen key and that every other key of the parent is unchanged. With order 4 and the
  leaves 0 1 2, 3 4 and 5 6 7 under the separators 3 and 5, \<open>Remove(4)\<close> makes the middle
  leaf steal the key 2 from the previous leaf. The program then looks the removed key 4
  up in the parent, which gives the index of the separator 5 after the leaf, and
  overwrites that one: the separators become 3 and 2 instead of 2 and 5.
\<close>

theorem steal_from_prev_overwrites_next_separator:
  "apply_ops (New 4 (<)) ops_1_to_7_and_0 = Some (Inr tree_1_to_7_and_0)
   \<and> keys (store tree_1_to_7_and_0 ! 2) = [3, 5]
   \<and> Remove tree_1_to_7_and_0 4 = Some (Inr (tree_stolen_from_prev, Some 40, True))
   \<and> keys (store tree_stolen_from_prev ! 1) = [2, 3]
   \<and> keys (store tree_stolen_from_prev ! 2) = [3, 2]"
  using tree_1_to_7_and_0_reached
  by (simp add: tree_1_to_7_and_0_def tree_stolen_from_prev_def bpt_eval)

subsection \<open>C8: stealing from the next leaf\<close>

text \<open>
  C8 says that a leaf that steals from its next sibling takes over the first pair of
  that sibling, and that the parent's separator between the two becomes the new first
  key of the sibling. With order 3 and the keys 1 to 9 the leaves 5 6 and 7 8 9 are the
  two children of node 5, whose separator is 7, but both still name node 2 as their
  parent: \<open>split\<close> moved them to the new internal node and left their parent references
  as they were. \<open>Remove(6)\<close> makes the first of them steal the key 7; the program then
  looks the key 6 up in the keys of node 2, gets the index 1 and panics on
  \<open>removeAt(1)\<close>, node 2 holding one key. The separator 7 is never set to 8. The same
  happens with an accurate parent reference when the leaf is the last child of its
  parent: with order 3 and the keys 10, 20, ..., 80 and 55, \<open>Remove(40)\<close> panics. Where
  the parent reference is accurate and names the parent of both leaves, as in the tree
  of order 4 with the keys 1 to 5, \<open>Remove(1)\<close> does what C8 says: the separator 3
  becomes 4.
\<close>

theorem steal_from_next_panics:
  "apply_ops (New 3 (<)) (ops_1_to_8 @ [Ins 9 90]) = Some (Inr tree_1_to_9)
   \<and> children (store tree_1_to_9 ! 5) = [3, 4]
   \<and> keys (store tree_1_to_9 ! 5) = [7]
   \<and> keys (store tree_1_to_9 ! 3) = [5, 6]
   \<and> next_n (store tree_1_to_9 ! 3) = Some 4
   \<and> keys (store tree_1_to_9 ! 4) = [7, 8, 9]
   \<and> parent (store tree_1_to_9 ! 3) = Some 2
   \<and> keys (store tree_1_to_9 ! 2) = [3]
   \<and> mayStealFromNeighborLeaf (<)
         ((store tree_1_to_9)[3 := (store tree_1_to_9 ! 3)\<lparr>keys := [5], values_n := [50]\<rparr>])
         3 6
       = stealFromNext (<)
           ((store tree_1_to_9)[3 := (store tree_1_to_9 ! 3)\<lparr>keys := [5], values_n := [50]\<rparr>])
           3 4 6
   \<and> stealFromNext (<)
         ((store tree_1_to_9)[3 := (store tree_1_to_9 ! 3)\<lparr>keys := [5], values_n := [50]\<rparr>])
         3 4 6
       = Inl IndexOutOfRange
   \<and> Remove tree_1_to_9 6 = Some (Inl IndexOutOfRange)
   \<and> apply_ops (New 3 (<)) ops_tens_and_55 = Some (Inr tree_tens_and_55)
   \<and> children (store tree_tens_and_55 ! 2) = [0, 1]
   \<and> parent (store tree_tens_and_55 ! 1) = Some 2
   \<and> next_n (store tree_tens_and_55 ! 1) = Some 3
   \<and> Remove tree_tens_and_55 40 = Some (Inl IndexOutOfRange)
   \<and> Remove tree_1_to_5 1
       = Some (Inr (\<lparr>order_t = 4, less_t = (<), root = Some 2,
                      store =
                        [\<lparr>keys = [2, 3], children = [], parent = Some 2, order = 4,
                            next_n = Some 1, prev = None, isLeaf = True, values_n = [20, 30]\<rparr>,
                         \<lparr>keys = [4, 5], children = [], parent = Some 2, order = 4,
                            next_n = None, prev = Some 0, isLeaf = True, values_n = [40, 50]\<rparr>,
                         \<lparr>keys = [4], children = [0, 1], parent = None, order = 4,
                            next_n = None, prev = None, isLeaf = False, values_n = []\<rparr>]\<rparr>,
                    Some 10, True))"
proof -
  have "Remove tree_1_to_9 6 = Some (Inl IndexOutOfRange)"
    by (simp add: tree_1_to_9_def bpt_eval)
  moreover have "stealFromNext (<)
         ((store tree_1_to_9)[3 := (store tree_1_to_9 ! 3)\<lparr>keys := [5], values_n := [50]\<rparr>])
         3 4 6
       = Inl IndexOutOfRange"
    by (simp add: tree_1_to_9_def bpt_eval)
  moreover have "mayStealFromNeighborLeaf (<)
         ((store tree_1_to_9)[3 := (store tree_1_to_9 ! 3)\<lparr>keys := [5], values_n := [50]\<rparr>])
         3 6
       = Inl IndexOutOfRange"
    by (simp add: tree_1_to_9_def bpt_eval)
  moreover have "Remove tree_tens_and_55 40 = Some (Inl IndexOutOfRange)"
    by (simp add: tree_tens_and_55_def bpt_eval)
  moreover have "Remove tree_1_to_5 1
       = Some (Inr (\<lparr>order_t = 4, less_t = (<), root = Some 2,
                      store =
                        [\<lparr>keys = [2, 3], children = [], parent = Some 2, order = 4,
                            next_n = Some 1, prev = None, isLeaf = True, values_n = [20, 30]\<rparr>,
                         \<lparr>keys = [4, 5], children = [], parent = Some 2, order = 4,
                            next_n = None, prev = Some 0, isLeaf = True, values_n = [40, 50]\<rparr>,
                         \<lparr>keys = [4], children = [0, 1], parent = None, order = 4,
                            next_n = None, prev = None, isLeaf = False, values_n = []\<rparr>]\<rparr>,
                    Some 10, True))"
    by (simp add: tree_1_to_5_def bpt_eval)
  ultimately show ?thesis
    using tree_1_to_9_reached tree_tens_and_55_reached
    by (simp add: tree_1_to_9_def tree_tens_and_55_def)
qed

subsection \<open>C9: the order given to New\<close>

text \<open>
  C9 says that \<open>New\<close> rejects every order below 3 with a configuration error and returns
  no usable tree. \<open>New\<close> has no error result and checks nothing: with order 2 it returns
  a tree, and \<open>Insert\<close> stores a pair in it.
\<close>

theorem New_accepts_order_2:
  "(New 2 (<) :: (int, int) BPlusTree) = \<lparr>order_t = 2, less_t = (<), root = None, store = []\<rparr>
   \<and> Insert (New 2 (<)) (5::int) (7::int)
       = Some (Inr (\<lparr>order_t = 2, less_t = (<), root = Some 0,
                      store = [\<lparr>keys = [5], children = [], parent = None, order = 2,
                                 next_n = None, prev = None, isLeaf = True, values_n = [7]\<rparr>]\<rparr>,
                    False))"
  by (simp add: New_def Insert_def)

text \<open>
  C9 as amended: \<open>New(order, lessThan)\<close> validates nothing. For every order, below 3 or
  not, it returns an empty tree (no root, no node) that carries exactly that order and
  comparator, on which \<open>Remove\<close> of any key reports not-found.
\<close>

theorem New_any_order:
  "order_t (New ord lt) = ord \<and> less_t (New ord lt) = lt
   \<and> root (New ord lt) = None \<and> store (New ord lt) = []
   \<and> Remove (New ord lt) key = Some (Inr (New ord lt, None, False))"
  by (simp add: New_def Remove_def)

subsection \<open>C10: the root leaf that loses its last key\<close>

text \<open>
  C10: let the root of the tree be a solitary leaf (no parent) that holds exactly one
  key \<open>k\<close> with the value \<open>v\<close>, under a comparator that is irreflexive at \<open>k\<close> and an
  order of at least 1. Then \<open>Remove(k)\<close> returns \<open>v\<close> with \<open>found = true\<close> and leaves the
  root pointing at the same leaf, now without keys; on that tree \<open>Remove\<close> of any key
  returns not-found and changes nothing, and \<open>Insert\<close> of any pair stores it as the
  single pair of that leaf.
\<close>

theorem solitary_leaf_root_emptied:
  assumes "root t = Some r" and "r < length (store t)"
    and "isLeaf (store t ! r)" and "keys (store t ! r) = [k]" and "values_n (store t ! r) = [v]"
    and "parent (store t ! r) = None" and "\<not> less_t t k k" and "1 \<le> order (store t ! r)"
  shows "Remove t k
           = Some (Inr (t\<lparr>store := (store t)[r := (store t ! r)\<lparr>keys := [], values_n := []\<rparr>]\<rparr>,
                        Some v, True))
         \<and> (\<forall>k'. Remove (t\<lparr>store := (store t)[r := (store t ! r)\<lparr>keys := [], values_n := []\<rparr>]\<rparr>) k'
                  = Some (Inr (t\<lparr>store := (store t)[r := (store t ! r)\<lparr>keys := [], values_n := []\<rparr>]\<rparr>,
                               None, False)))
         \<and> (\<forall>k' v'. Insert (t\<lparr>store := (store t)[r := (store t ! r)\<lparr>keys := [], values_n := []\<rparr>]\<rparr>) k' v'
                  = Some (Inr (t\<lparr>store := (store t)[r := (store t ! r)\<lparr>keys := [k'], values_n := [v']\<rparr>]\<rparr>,
                               False)))"
proof (intro conjI allI)
  show "Remove t k
           = Some (Inr (t\<lparr>store := (store t)[r := (store t ! r)\<lparr>keys := [], values_n := []\<rparr>]\<rparr>,
                        Some v, True))"
    using assms
    by (simp add: Remove_def remove_node.simps removeFromLeaf_def find_items_single_eq
        removeAt_def upd_def Let_def)
next
  fix k'
  show "Remove (t\<lparr>store := (store t)[r := (store t ! r)\<lparr>keys := [], values_n := []\<rparr>]\<rparr>) k'
          = Some (Inr (t\<lparr>store := (store t)[r := (store t ! r)\<lparr>keys := [], values_n := []\<rparr>]\<rparr>,
                       None, False))"
    using assms
    by (simp add: Remove_def remove_node.simps removeFromLeaf_def find_items_Nil Let_def)
next
  fix k' v'
  show "Insert (t\<lparr>store := (store t)[r := (store t ! r)\<lparr>keys := [], values_n := []\<rparr>]\<rparr>) k' v'
          = Some (Inr (t\<lparr>store := (store t)[r := (store t ! r)\<lparr>keys := [k'], values_n := [v']\<rparr>]\<rparr>,
                       False))"
    using assms
    by (simp add: Insert_def insert_node.simps insertIntoLeaf_def find_items_Nil insertAt_def
        upd_def Let_def mayGrowUp.simps maxKeys_def)
qed

text \<open>The theorem at the tree of order 4 that holds the single pair 5, "a".\<close>

theorem solitary_leaf_root_emptied_witness:
  "Remove \<lparr>order_t = 4, less_t = (<), root = Some 0,
           store = [\<lparr>keys = [5::int], children = [], parent = None, order = 4, next_n = None,
                      prev = None, isLeaf = True, values_n = [''a'']\<rparr>]\<rparr> 5
     = Some (Inr (\<lparr>order_t = 4, less_t = (<), root = Some 0,
                    store = [\<lparr>keys = [], children = [], parent = None, order = 4, next_n = None,
                               prev = None, isLeaf = True, values_n = []\<rparr>]\<rparr>, Some ''a'', True))
   \<and> Remove \<lparr>order_t = 4, less_t = (<), root = Some 0,
           store = [\<lparr>keys = [], children = [], parent = None, order = 4, next_n = None,
                      prev = None, isLeaf = True, values_n = []\<rparr>]\<rparr> (6::int)
     = Some (Inr (\<lparr>order_t = 4, less_t = (<), root = Some 0,
                    store = [\<lparr>keys = [], children = [], parent = None, order = 4, next_n = None,
                               prev = None, isLeaf = True, values_n = ([] :: string list)\<rparr>]\<rparr>,
                  None, False))
   \<and> Insert \<lparr>order_t = 4, less_t = (<), root = Some 0,
           store = [\<lparr>keys = [], children = [], parent = None, order = 4, next_n = None,
                      prev = None, isLeaf = True, values_n = []\<rparr>]\<rparr> (7::int) ''c''
     = Some (Inr (\<lparr>order_t = 4, less_t = (<), root = Some 0,
                    store = [\<lparr>keys = [7], children = [], parent = None, order = 4, next_n = None,
                               prev = None, isLeaf = True, values_n = [''c'']\<rparr>]\<rparr>, False))"
  using solitary_leaf_root_emptied [of
      "\<lparr>order_t = 4, less_t = (<), root = Some 0,
           store = [\<lparr>keys = [5::int], children = [], parent = None, order = 4, next_n = None,
                      prev = None, isLeaf = True, values_n = [''a'']\<rparr>]\<rparr>" 0 5 "''a''"]
  by simp

end
